theory Spec2Isabelle
  imports Complex_Main
begin

section \<open>The board: pins, the waveform generator and the console\<close>

text \<open>
  The two source files \<^verbatim>\<open>StepperMotor.py\<close> and \<^verbatim>\<open>BlinkLed.py\<close> drive an A4988 stepper
  driver through MicroPython's \<^verbatim>\<open>machine.Pin\<close> and \<^verbatim>\<open>machine.PWM\<close>. Both classes are
  imported, not defined, by the repository, so the board is kept abstract: a pin has a
  mode, a pull and a level, every configuration and every write is also appended to a
  trace (a step pulse leaves no other mark), and the waveform generator records the
  duty and the frequency it was last given, whatever their value.
\<close>

datatype pin_mode = IN | OUT

datatype pin_pull = PULL_UP

record pin_state =
  mode :: "pin_mode option"
  pull :: "pin_pull option"
  level :: nat

datatype pin_event =
    Configure int pin_mode "pin_pull option"
  | Value int nat

record pwm_state =
  duty :: "int option"
  duty_u16 :: "int option"
  freq :: "rat option"

text \<open>
  The lines the program prints, one constructor per \<^verbatim>\<open>print\<close> call of the source, with
  the values its f-string interpolates.
\<close>

datatype message =
    Pins_not_fully_declared
  | Motor_enabled
  | Motor_disabled
  | Motor_direction_reversed
  | StepDivider_not_valid int
  | Microstepping_set_to int
  | Motor_moved int int
  | Speed_exceeds_max int int
  | Speed_set_to int rat
  | No_homing_pin_configured
  | Homing_motor_using_pin int
  | Motor_homed_successfully

record machine =
  pins :: "int \<Rightarrow> pin_state"
  pin_events :: "pin_event list"
  pwms :: "int \<Rightarrow> pwm_state option"
  console :: "message list"

text \<open>\<^verbatim>\<open>Pin(id, mode)\<close> and \<^verbatim>\<open>Pin(id, mode, pull)\<close>: an argument that is not given leaves
  that part of the pin as it was.\<close>

definition Pin :: "int \<Rightarrow> pin_mode \<Rightarrow> pin_pull option \<Rightarrow> 'a machine_scheme \<Rightarrow> 'a machine_scheme" where
  "Pin p md pl m =
     m\<lparr>pins := (pins m)(p := (pins m p)\<lparr>mode := Some md,
                                         pull := (case pl of None \<Rightarrow> pull (pins m p) | Some u \<Rightarrow> Some u)\<rparr>),
       pin_events := pin_events m @ [Configure p md pl]\<rparr>"

text \<open>\<^verbatim>\<open>pin.value(x)\<close>: any argument that is true as a boolean drives the pin high.\<close>

definition logic_level :: "int \<Rightarrow> nat" where
  "logic_level x = (if x = 0 then 0 else 1)"

definition pin_value :: "int \<Rightarrow> int \<Rightarrow> 'a machine_scheme \<Rightarrow> 'a machine_scheme" where
  "pin_value p x m =
     m\<lparr>pins := (pins m)(p := (pins m p)\<lparr>level := logic_level x\<rparr>),
       pin_events := pin_events m @ [Value p (logic_level x)]\<rparr>"

definition print :: "message \<Rightarrow> 'a machine_scheme \<Rightarrow> 'a machine_scheme" where
  "print msg m = m\<lparr>console := console m @ [msg]\<rparr>"

text \<open>\<^verbatim>\<open>PWM(Pin(p))\<close> starts a generator on the pin; \<^verbatim>\<open>duty\<close>, \<^verbatim>\<open>duty_u16\<close> and
  \<^verbatim>\<open>freq\<close> set its parameters.\<close>

definition PWM :: "int \<Rightarrow> int option \<Rightarrow> 'a machine_scheme \<Rightarrow> 'a machine_scheme" where
  "PWM p d16 m = m\<lparr>pwms := (pwms m)(p := Some \<lparr>duty = None, duty_u16 = d16, freq = None\<rparr>)\<rparr>"

definition pwm_duty :: "int \<Rightarrow> int \<Rightarrow> 'a machine_scheme \<Rightarrow> 'a machine_scheme" where
  "pwm_duty p d m =
     (case pwms m p of
        None \<Rightarrow> m
      | Some g \<Rightarrow> m\<lparr>pwms := (pwms m)(p := Some (g\<lparr>duty := Some d\<rparr>))\<rparr>)"

definition pwm_freq :: "int \<Rightarrow> rat \<Rightarrow> 'a machine_scheme \<Rightarrow> 'a machine_scheme" where
  "pwm_freq p f m =
     (case pwms m p of
        None \<Rightarrow> m
      | Some g \<Rightarrow> m\<lparr>pwms := (pwms m)(p := Some (g\<lparr>freq := Some f\<rparr>))\<rparr>)"

text \<open>Python's \<^verbatim>\<open>int(x)\<close> on a float truncates towards zero.\<close>

definition py_int :: "rat \<Rightarrow> int" where
  "py_int q = (if 0 \<le> q then \<lfloor>q\<rfloor> else \<lceil>q\<rceil>)"

text \<open>\<^verbatim>\<open>for _ in range(n): body\<close>.\<close>

primrec for_range :: "nat \<Rightarrow> ('s \<Rightarrow> 's) \<Rightarrow> 's \<Rightarrow> 's" where
  "for_range 0 body s = s"
| "for_range (Suc n) body s = for_range n body (body s)"

section \<open>The controller object\<close>

text \<open>
  The instance attributes of \<^verbatim>\<open>StepperMotor\<close>. \<^verbatim>\<open>__init__\<close> assigns \<open>currentPosition\<close> and
  \<open>currentSpeed\<close> the value \<^verbatim>\<open>None\<close>; it assigns neither \<open>speed\<close> nor \<open>position\<close>, which
  exist only once \<^verbatim>\<open>setSpeed\<close> or a homing call has run: for these two fields \<open>None\<close>
  stands for the missing attribute, and reading it raises \<^verbatim>\<open>AttributeError\<close>. In
  \<^verbatim>\<open>BlinkLed.py\<close> the three pin attributes hold \<^verbatim>\<open>Pin\<close> objects; they are kept here by
  the number of the pin they wrap.
\<close>

record StepperMotor =
  currentPosition :: "int option"
  currentSpeed :: "int option"
  stepPin :: int
  dirPin :: int
  disablePin :: int
  homingPin :: "int option"
  stepDivider :: int
  MAX_RPM :: int
  direction :: int
  speed :: "rat option"
  position :: "int option"

record world = machine +
  self :: StepperMotor

datatype py_error = SystemExit int | AttributeError string

type_synonym result = "(py_error \<times> world) + world"

definition VALID_MICROSTEPS :: "int set" where
  "VALID_MICROSTEPS = {1, 2, 4, 8, 16}"

definition and_then :: "result \<Rightarrow> (world \<Rightarrow> result) \<Rightarrow> result" where
  "and_then r f = (case r of Inl e \<Rightarrow> Inl e | Inr w \<Rightarrow> f w)"

subsection \<open>Construction\<close>

definition new_world :: "machine \<Rightarrow> StepperMotor \<Rightarrow> world" where
  "new_world m s =
     \<lparr>pins = pins m, pin_events = pin_events m, pwms = pwms m, console = console m, self = s\<rparr>"

text \<open>\<^verbatim>\<open>StepperMotor.py\<close>, \<^verbatim>\<open>__init__(self, homingPin, stepPin, dirPin, disablePin)\<close>.\<close>

definition init ::
  "int option \<Rightarrow> int option \<Rightarrow> int option \<Rightarrow> int option \<Rightarrow> machine \<Rightarrow> (py_error \<times> machine) + world" where
  "init homingPin0 stepPin0 dirPin0 disablePin0 m =
     (case (stepPin0, dirPin0, disablePin0) of
        (Some sp, Some dp, Some xp) \<Rightarrow>
          (let s = \<lparr>currentPosition = None, currentSpeed = None, stepPin = sp, dirPin = dp,
                    disablePin = xp, homingPin = homingPin0, stepDivider = 1, MAX_RPM = 600,
                    direction = 1, speed = None, position = None\<rparr>;
               m1 = pin_value sp 0 (Pin sp OUT None m);
               m2 = pin_value dp 0 (Pin dp OUT None m1);
               m3 = pin_value xp 1 (Pin xp OUT None m2);
               m4 = (case homingPin0 of None \<Rightarrow> m3 | Some hp \<Rightarrow> Pin hp IN (Some PULL_UP) m3)
           in Inr (new_world m4 s))
      | _ \<Rightarrow> Inl (SystemExit 1, print Pins_not_fully_declared m))"

text \<open>\<^verbatim>\<open>BlinkLed.py\<close>, \<^verbatim>\<open>__init__(self, stepPin, dirPin, disablePin, homingPin, counterPin)\<close>;
  \<open>counterPin\<close> is never used.\<close>

definition init_BL ::
  "int option \<Rightarrow> int option \<Rightarrow> int option \<Rightarrow> int option \<Rightarrow> int option \<Rightarrow> machine
     \<Rightarrow> (py_error \<times> machine) + world" where
  "init_BL stepPin0 dirPin0 disablePin0 homingPin0 counterPin0 m =
     (case (stepPin0, dirPin0, disablePin0) of
        (Some sp, Some dp, Some xp) \<Rightarrow>
          (let s = \<lparr>currentPosition = None, currentSpeed = None, stepPin = sp, dirPin = dp,
                    disablePin = xp, homingPin = homingPin0, stepDivider = 1, MAX_RPM = 600,
                    direction = 1, speed = None, position = None\<rparr>;
               m1 = pin_value sp 0 (Pin sp OUT None m);
               m2 = pin_value dp 1 (Pin dp OUT None m1);
               m3 = pin_value xp 1 (Pin xp OUT None m2);
               m4 = (case homingPin0 of None \<Rightarrow> m3 | Some hp \<Rightarrow> Pin hp IN (Some PULL_UP) m3)
           in Inr (new_world m4 s))
      | _ \<Rightarrow> Inl (SystemExit 1, print Pins_not_fully_declared m))"

subsection \<open>Enable, disable, direction, microstepping\<close>

definition enableMotor :: "world \<Rightarrow> world" where
  "enableMotor w = print Motor_enabled (pin_value (disablePin (self w)) 0 (Pin (disablePin (self w)) OUT None w))"

text \<open>\<^verbatim>\<open>BlinkLed.py\<close> writes through the stored pin object, without configuring it again.\<close>

definition enableMotor_BL :: "world \<Rightarrow> world" where
  "enableMotor_BL w = print Motor_enabled (pin_value (disablePin (self w)) 0 w)"

definition disableMotor :: "world \<Rightarrow> world" where
  "disableMotor w = print Motor_disabled (pin_value (disablePin (self w)) 1 (Pin (disablePin (self w)) OUT None w))"

definition reverseDirections :: "world \<Rightarrow> world" where
  "reverseDirections w = print Motor_direction_reversed (w\<lparr>self := (self w)\<lparr>direction := - direction (self w)\<rparr>\<rparr>)"

definition setMicroStep :: "int \<Rightarrow> world \<Rightarrow> result" where
  "setMicroStep stepDivider0 w =
     (if stepDivider0 \<notin> VALID_MICROSTEPS
      then Inl (SystemExit 1, print (StepDivider_not_valid stepDivider0) w)
      else Inr (print (Microstepping_set_to stepDivider0)
                  (w\<lparr>self := (self w)\<lparr>stepDivider := stepDivider0\<rparr>\<rparr>)))"

subsection \<open>Discrete moves\<close>

text \<open>One pass of the pulse loop of \<^verbatim>\<open>moveSteps\<close> (and of the first loop of \<^verbatim>\<open>step\<close>).\<close>

definition pulse :: "world \<Rightarrow> world" where
  "pulse w = pin_value (stepPin (self w)) 0 (Pin (stepPin (self w)) OUT None
               (pin_value (stepPin (self w)) 1 (Pin (stepPin (self w)) OUT None w)))"

text \<open>One pass of the second loop of \<^verbatim>\<open>step\<close>, which writes through the stored pin object.\<close>

definition pulse_BL :: "world \<Rightarrow> world" where
  "pulse_BL w = pin_value (stepPin (self w)) 0 (pin_value (stepPin (self w)) 1 w)"

text \<open>\<^verbatim>\<open>StepperMotor.py\<close>, \<^verbatim>\<open>moveSteps\<close>: the pulses, then a \<^verbatim>\<open>print\<close> whose f-string reads
  \<^verbatim>\<open>self.position\<close>.\<close>

definition moveSteps :: "int \<Rightarrow> world \<Rightarrow> result" where
  "moveSteps steps w =
     (let w1 = for_range (nat \<bar>steps\<bar>) pulse w
      in case position (self w1) of
           None \<Rightarrow> Inl (AttributeError ''position'', w1)
         | Some p \<Rightarrow> Inr (print (Motor_moved steps p) w1))"

text \<open>\<^verbatim>\<open>BlinkLed.py\<close>, \<^verbatim>\<open>step\<close>.\<close>

definition step :: "int \<Rightarrow> world \<Rightarrow> result" where
  "step steps w =
     (let w1 = (if steps > 0
                then for_range (nat \<bar>steps\<bar>) pulse
                       (pin_value (dirPin (self w)) (direction (self w)) (Pin (dirPin (self w)) OUT None w))
                else w);
          w2 = (if steps < 0
                then for_range (nat \<bar>steps\<bar>) pulse_BL
                       (pin_value (dirPin (self w1)) (- direction (self w1)) (Pin (dirPin (self w1)) OUT None w1))
                else w1)
      in case position (self w2) of
           None \<Rightarrow> Inl (AttributeError ''position'', w2)
         | Some p \<Rightarrow>
             (let w3 = w2\<lparr>self := (self w2)\<lparr>position := Some (p + steps * direction (self w2))\<rparr>\<rparr>
              in Inr (print (Motor_moved steps (p + steps * direction (self w2))) w3)))"

subsection \<open>Continuous speed\<close>

text \<open>\<^verbatim>\<open>StepperMotor.py\<close>, \<^verbatim>\<open>setSpeed\<close>. The quotient \<^verbatim>\<open>(rpm * steps_per_revolution) / 60\<close> is
  Python's true division, taken here as the exact rational.\<close>

definition setSpeed :: "int \<Rightarrow> world \<Rightarrow> result" where
  "setSpeed rpm w =
     (let steps_per_revolution = 200 * stepDivider (self w);
          sp = (of_int (rpm * steps_per_revolution) / 60 :: rat);
          w1 = w\<lparr>self := (self w)\<lparr>speed := Some sp\<rparr>\<rparr>
      in if sp > of_int (MAX_RPM (self w1) * steps_per_revolution) / 60
         then Inl (SystemExit 1, print (Speed_exceeds_max rpm (MAX_RPM (self w1))) w1)
         else
           (let w2 = pwm_freq (stepPin (self w1)) sp
                       (pwm_duty (stepPin (self w1)) 512 (PWM (stepPin (self w1)) None w1));
                w3 = (if rpm * direction (self w2) < 0
                      then pin_value (dirPin (self w2)) 1 (Pin (dirPin (self w2)) OUT None w2)
                      else pin_value (dirPin (self w2)) 0 (Pin (dirPin (self w2)) OUT None w2));
                w4 = w3\<lparr>self := (self w3)\<lparr>currentSpeed := Some rpm\<rparr>\<rparr>
            in Inr (print (Speed_set_to rpm sp) w4)))"

text \<open>\<^verbatim>\<open>BlinkLed.py\<close>, \<^verbatim>\<open>setSpeed\<close>: the generator is created with \<^verbatim>\<open>duty_u16 = 32768\<close>, the
  frequency is passed through \<^verbatim>\<open>int\<close>, the direction pin is written through the stored
  object.\<close>

definition setSpeed_BL :: "int \<Rightarrow> world \<Rightarrow> result" where
  "setSpeed_BL rpm w =
     (let steps_per_revolution = 200 * stepDivider (self w);
          sp = (of_int (rpm * steps_per_revolution) / 60 :: rat);
          w1 = w\<lparr>self := (self w)\<lparr>speed := Some sp\<rparr>\<rparr>
      in if sp > of_int (MAX_RPM (self w1) * steps_per_revolution) / 60
         then Inl (SystemExit 1, print (Speed_exceeds_max rpm (MAX_RPM (self w1))) w1)
         else
           (let w2 = pwm_freq (stepPin (self w1)) (of_int (py_int sp))
                       (PWM (stepPin (self w1)) (Some 32768) w1);
                w3 = (if rpm * direction (self w2) < 0
                      then pin_value (dirPin (self w2)) 1 w2
                      else pin_value (dirPin (self w2)) 0 w2);
                w4 = w3\<lparr>self := (self w3)\<lparr>currentSpeed := Some rpm\<rparr>\<rparr>
            in Inr (print (Speed_set_to rpm sp) w4)))"

subsection \<open>Homing\<close>

definition homeMotorReverse :: "int \<Rightarrow> world \<Rightarrow> result" where
  "homeMotorReverse speed0 w =
     (case homingPin (self w) of
        None \<Rightarrow> Inr (print No_homing_pin_configured w)
      | Some hp \<Rightarrow>
          and_then (setSpeed speed0 (print (Homing_motor_using_pin hp) w))
            (\<lambda>w1. Inr (print Motor_homed_successfully (w1\<lparr>self := (self w1)\<lparr>position := Some 0\<rparr>\<rparr>))))"

definition homeMotorReverse_BL :: "int \<Rightarrow> world \<Rightarrow> result" where
  "homeMotorReverse_BL speed0 w =
     (case homingPin (self w) of
        None \<Rightarrow> Inr (print No_homing_pin_configured w)
      | Some hp \<Rightarrow>
          and_then (setSpeed_BL speed0 (print (Homing_motor_using_pin hp) w))
            (\<lambda>w1. Inr (print Motor_homed_successfully (w1\<lparr>self := (self w1)\<lparr>position := Some 0\<rparr>\<rparr>))))"

definition homeMotorForward :: "int \<Rightarrow> world \<Rightarrow> result" where
  "homeMotorForward speed0 w =
     (case homingPin (self w) of
        None \<Rightarrow> Inr (print No_homing_pin_configured w)
      | Some hp \<Rightarrow>
          Inr (print Motor_homed_successfully
                 ((print (Homing_motor_using_pin hp) w)\<lparr>self := (self w)\<lparr>position := Some 0\<rparr>\<rparr>)))"

section \<open>Observations and example controllers\<close>

text \<open>What a call leaves behind: the error or the attributes of the object, and the world
  at the moment the call returned or raised.\<close>

definition outcome :: "result \<Rightarrow> py_error + StepperMotor" where
  "outcome r = map_sum fst self r"

definition state_of :: "result \<Rightarrow> world" where
  "state_of r = (case r of Inl (e, w) \<Rightarrow> w | Inr w \<Rightarrow> w)"

text \<open>What \<^verbatim>\<open>__init__\<close> establishes and every method keeps: the limit of 600 rpm, a valid
  divider, a direction of one sign or the other.\<close>

definition controller_inv :: "world \<Rightarrow> bool" where
  "controller_inv w \<longleftrightarrow>
     MAX_RPM (self w) = 600 \<and> stepDivider (self w) \<in> VALID_MICROSTEPS \<and>
     (direction (self w) = 1 \<or> direction (self w) = - 1)"

text \<open>A board on which nothing has been configured yet, and the controllers the script at
  the end of \<^verbatim>\<open>BlinkLed.py\<close> builds on it (step pin 17, direction pin 16, disable pin 7,
  homing pin 4), with and without the homing pin, from either file.\<close>

definition machine0 :: machine where
  "machine0 = \<lparr>pins = (\<lambda>_. \<lparr>mode = None, pull = None, level = 0\<rparr>), pin_events = [],
                pwms = (\<lambda>_. None), console = []\<rparr>"

definition motor_SM :: world where
  "motor_SM = projr (init (Some 4) (Some 17) (Some 16) (Some 7) machine0)"

definition motor_BL :: world where
  "motor_BL = projr (init_BL (Some 17) (Some 16) (Some 7) (Some 4) None machine0)"

definition nohome_SM :: world where
  "nohome_SM = projr (init None (Some 17) (Some 16) (Some 7) machine0)"

definition nohome_BL :: world where
  "nohome_BL = projr (init_BL (Some 17) (Some 16) (Some 7) None None machine0)"

text \<open>The same controllers after \<^verbatim>\<open>homeMotorForward()\<close>, which is what first gives them a
  position.\<close>

definition homed_SM :: world where
  "homed_SM = state_of (homeMotorForward 60 motor_SM)"

definition homed_BL :: world where
  "homed_BL = state_of (homeMotorForward 60 motor_BL)"

section \<open>Basic facts\<close>

lemmas board_defs =
  Pin_def pin_value_def print_def PWM_def pwm_duty_def pwm_freq_def logic_level_def new_world_def

lemmas example_defs =
  machine0_def motor_SM_def motor_BL_def nohome_SM_def nohome_BL_def init_def init_BL_def

subsection \<open>The example controllers\<close>

lemma motor_SM_self:
  "self motor_SM =
     \<lparr>currentPosition = None, currentSpeed = None, stepPin = 17, dirPin = 16, disablePin = 7,
      homingPin = Some 4, stepDivider = 1, MAX_RPM = 600, direction = 1, speed = None,
      position = None\<rparr>"
  by (simp add: example_defs board_defs)

lemma motor_BL_self:
  "self motor_BL =
     \<lparr>currentPosition = None, currentSpeed = None, stepPin = 17, dirPin = 16, disablePin = 7,
      homingPin = Some 4, stepDivider = 1, MAX_RPM = 600, direction = 1, speed = None,
      position = None\<rparr>"
  by (simp add: example_defs board_defs)

lemma nohome_SM_self:
  "self nohome_SM =
     \<lparr>currentPosition = None, currentSpeed = None, stepPin = 17, dirPin = 16, disablePin = 7,
      homingPin = None, stepDivider = 1, MAX_RPM = 600, direction = 1, speed = None,
      position = None\<rparr>"
  by (simp add: example_defs board_defs)

lemma nohome_BL_self:
  "self nohome_BL =
     \<lparr>currentPosition = None, currentSpeed = None, stepPin = 17, dirPin = 16, disablePin = 7,
      homingPin = None, stepDivider = 1, MAX_RPM = 600, direction = 1, speed = None,
      position = None\<rparr>"
  by (simp add: example_defs board_defs)

lemma homeMotorForward_motor_SM:
  "homeMotorForward 60 motor_SM =
     Inr (print Motor_homed_successfully
           ((print (Homing_motor_using_pin 4) motor_SM)\<lparr>self := (self motor_SM)\<lparr>position := Some 0\<rparr>\<rparr>))"
  by (simp add: homeMotorForward_def motor_SM_self)

lemma homed_SM_self: "self homed_SM = (self motor_SM)\<lparr>position := Some 0\<rparr>"
  by (simp add: homed_SM_def homeMotorForward_motor_SM state_of_def print_def)

lemma homed_BL_self: "self homed_BL = (self motor_BL)\<lparr>position := Some 0\<rparr>"
  by (simp add: homed_BL_def homeMotorForward_def motor_BL_self state_of_def print_def)

subsection \<open>The invariant\<close>


lemma init_inv: "init hp sp dp xp m = Inr w \<Longrightarrow> controller_inv w"
  by (auto simp: init_def new_world_def Let_def controller_inv_def VALID_MICROSTEPS_def
           split: option.splits)

lemma init_BL_inv: "init_BL sp dp xp hp cp m = Inr w \<Longrightarrow> controller_inv w"
  by (auto simp: init_BL_def new_world_def Let_def controller_inv_def VALID_MICROSTEPS_def
           split: option.splits)

lemma setMicroStep_inv: "controller_inv w \<Longrightarrow> controller_inv (state_of (setMicroStep d w))"
  by (simp add: setMicroStep_def controller_inv_def state_of_def print_def)

lemma reverseDirections_inv: "controller_inv w \<Longrightarrow> controller_inv (reverseDirections w)"
  by (auto simp: reverseDirections_def controller_inv_def print_def)

lemma setSpeed_inv: "controller_inv w \<Longrightarrow> controller_inv (state_of (setSpeed rpm w))"
  by (simp add: setSpeed_def controller_inv_def state_of_def Let_def board_defs split: option.splits)

lemma setSpeed_BL_inv: "controller_inv w \<Longrightarrow> controller_inv (state_of (setSpeed_BL rpm w))"
  by (simp add: setSpeed_BL_def controller_inv_def state_of_def Let_def board_defs split: option.splits)



subsection \<open>The pulse loops\<close>

lemma pulse_self: "self (pulse w) = self w"
  by (simp add: pulse_def board_defs)

lemma for_range_pulse_self: "self (for_range n pulse w) = self w"
  by (induction n arbitrary: w) (simp_all add: pulse_self)

lemma for_range_pulse_BL_self: "self (for_range n pulse_BL w) = self w"
  by (induction n arbitrary: w) (simp_all add: pulse_BL_def board_defs)

lemma for_range_pulse_events:
  "pin_events (for_range n pulse w) =
     pin_events w @
     concat (replicate n [Configure (stepPin (self w)) OUT None, Value (stepPin (self w)) 1,
                          Configure (stepPin (self w)) OUT None, Value (stepPin (self w)) 0])"
proof (induction n arbitrary: w)
  case 0
  show ?case by simp
next
  case (Suc n)
  have "pin_events (pulse w) =
          pin_events w @ [Configure (stepPin (self w)) OUT None, Value (stepPin (self w)) 1,
                          Configure (stepPin (self w)) OUT None, Value (stepPin (self w)) 0]"
    by (simp add: pulse_def board_defs)
  then show ?case
    by (simp add: Suc.IH pulse_self)
qed

subsection \<open>What a move returns\<close>

lemma init_position_unset: "init hp sp dp xp m = Inr w \<Longrightarrow> position (self w) = None"
  by (auto simp: init_def new_world_def Let_def split: option.splits)

lemma init_BL_position_unset: "init_BL sp dp xp hp cp m = Inr w \<Longrightarrow> position (self w) = None"
  by (auto simp: init_BL_def new_world_def Let_def split: option.splits)

lemma moveSteps_outcome:
  "outcome (moveSteps n w) =
     (case position (self w) of
        None \<Rightarrow> Inl (AttributeError ''position'')
      | Some p \<Rightarrow> Inr (self w))"
  by (simp add: moveSteps_def outcome_def Let_def for_range_pulse_self print_def split: option.splits)

lemma moveSteps_events:
  "pin_events (state_of (moveSteps n w)) =
     pin_events w @
     concat (replicate (nat \<bar>n\<bar>) [Configure (stepPin (self w)) OUT None, Value (stepPin (self w)) 1,
                                  Configure (stepPin (self w)) OUT None, Value (stepPin (self w)) 0])"
  by (simp add: moveSteps_def state_of_def Let_def for_range_pulse_events print_def split: option.splits)

text \<open>\<^verbatim>\<open>step\<close> of \<^verbatim>\<open>BlinkLed.py\<close> is the variant that keeps the position: once the attribute
  exists, a call adds \<open>steps * direction\<close> to it, and zero steps leave it as it was.\<close>

lemma step_outcome:
  "outcome (step n w) =
     (case position (self w) of
        None \<Rightarrow> Inl (AttributeError ''position'')
      | Some p \<Rightarrow> Inr ((self w)\<lparr>position := Some (p + n * direction (self w))\<rparr>))"
  by (simp add: step_def outcome_def Let_def for_range_pulse_self for_range_pulse_BL_self board_defs
           split: option.splits)

lemma step_zero:
  assumes "position (self w) = Some p"
  shows "step 0 w = Inr (print (Motor_moved 0 p) w)"
proof -
  have "(self w)\<lparr>position := Some p\<rparr> = self w"
    using assms by (cases "self w") simp
  then have e: "w\<lparr>self := (self w)\<lparr>position := Some p\<rparr>\<rparr> = w"
    by simp
  have "step 0 w = Inr (print (Motor_moved 0 p) (w\<lparr>self := (self w)\<lparr>position := Some p\<rparr>\<rparr>))"
    using assms by (simp add: step_def Let_def)
  then show ?thesis
    by (simp only: e)
qed

section \<open>The speed limit\<close>




section \<open>Microstepping\<close>

text \<open>
  C2, as the code has it. A divider among 1, 2, 4, 8, 16 is stored and reads back. Any
  other integer makes \<^verbatim>\<open>setMicroStep\<close> print the error and call \<^verbatim>\<open>sys.exit(1)\<close>: the call
  ends in \<^verbatim>\<open>SystemExit\<close>, with the divider and everything else but the console as before.
\<close>

theorem setMicroStep_valid_or_exit:
  "(d \<in> {1, 2, 4, 8, 16} \<longrightarrow>
      setMicroStep d w =
        Inr (print (Microstepping_set_to d) (w\<lparr>self := (self w)\<lparr>stepDivider := d\<rparr>\<rparr>)) \<and>
      stepDivider (self (state_of (setMicroStep d w))) = d) \<and>
   (d \<notin> {1, 2, 4, 8, 16} \<longrightarrow>
      setMicroStep d w = Inl (SystemExit 1, print (StepDivider_not_valid d) w) \<and>
      stepDivider (self (state_of (setMicroStep d w))) = stepDivider (self w))"
  by (simp add: setMicroStep_def VALID_MICROSTEPS_def state_of_def print_def)

theorem setMicroStep_valid_or_exit_witness:
  "(8::int) \<in> {1, 2, 4, 8, 16} \<and>
   outcome (setMicroStep 8 motor_SM) = Inr ((self motor_SM)\<lparr>stepDivider := 8\<rparr>) \<and>
   (3::int) \<notin> {1, 2, 4, 8, 16} \<and>
   outcome (setMicroStep 3 motor_SM) = Inl (SystemExit 1) \<and>
   stepDivider (self (state_of (setMicroStep 3 motor_SM))) = 1"
  using setMicroStep_valid_or_exit [of 8 motor_SM] setMicroStep_valid_or_exit [of 3 motor_SM]
  by (simp add: outcome_def state_of_def print_def motor_SM_self)

text \<open>C2 as stated fails at the divider 3: the call does not return an error to its caller,
  it exits.\<close>

theorem setMicroStep_exit_counterexample:
  "setMicroStep 3 motor_SM = Inl (SystemExit 1, print (StepDivider_not_valid 3) motor_SM)"
  by (simp add: setMicroStep_def VALID_MICROSTEPS_def)

section \<open>The position\<close>

text \<open>
  C3 does not hold of the code. \<^verbatim>\<open>__init__\<close> assigns \<^verbatim>\<open>self.currentPosition = None\<close> and never
  \<^verbatim>\<open>self.position\<close>, the attribute the moves read. On a controller built without a homing
  pin (so that nothing can have homed it) the first move emits its pulses and then raises
  \<^verbatim>\<open>AttributeError\<close>, for one step and for none, in \<^verbatim>\<open>moveSteps\<close> of \<^verbatim>\<open>StepperMotor.py\<close> and in
  \<^verbatim>\<open>step\<close> of \<^verbatim>\<open>BlinkLed.py\<close>.
\<close>

theorem first_move_raises:
  "position (self nohome_SM) = None \<and>
   outcome (moveSteps 1 nohome_SM) = Inl (AttributeError ''position'') \<and>
   outcome (moveSteps 0 nohome_SM) = Inl (AttributeError ''position'') \<and>
   position (self nohome_BL) = None \<and>
   outcome (step 1 nohome_BL) = Inl (AttributeError ''position'') \<and>
   outcome (step 0 nohome_BL) = Inl (AttributeError ''position'')"
  by (simp add: moveSteps_outcome step_outcome nohome_SM_self nohome_BL_self)

text \<open>
  C4 does not hold of \<^verbatim>\<open>moveSteps\<close> in \<^verbatim>\<open>StepperMotor.py\<close>. After \<^verbatim>\<open>homeMotorForward()\<close> has set
  the position to 0, \<^verbatim>\<open>moveSteps(5)\<close> emits its five pulses on pin 17 and returns with every
  attribute as it was, the position still 0: the function prints a new position and
  never assigns one.
\<close>

theorem moveSteps_keeps_position:
  "position (self homed_SM) = Some 0 \<and>
   direction (self homed_SM) = 1 \<and>
   outcome (moveSteps 5 homed_SM) = Inr (self homed_SM) \<and>
   pin_events (state_of (moveSteps 5 homed_SM)) =
     pin_events homed_SM @
     concat (replicate 5 [Configure 17 OUT None, Value 17 1, Configure 17 OUT None, Value 17 0])"
  by (simp add: moveSteps_outcome moveSteps_events homed_SM_self motor_SM_self)

section \<open>The stored frequency\<close>



section \<open>Construction\<close>

text \<open>
  C6, as the code has it. Given the three pins, \<^verbatim>\<open>__init__\<close> succeeds; it configures the step
  pin as an output and writes 0, the direction pin as an output and writes 0 in
  \<^verbatim>\<open>StepperMotor.py\<close> and 1 in \<^verbatim>\<open>BlinkLed.py\<close>, the disable pin as an output and writes 1, and
  a homing pin, when given, as an input with pull-up, in this order and nothing else.
  The attributes are direction 1, divider 1, current speed \<^verbatim>\<open>None\<close>, the limit 600; the
  object has no attribute for being enabled. When the pins are pairwise distinct these
  writes are also the final state of each pin.
\<close>

theorem init_configures_pins:
  "(\<exists>w. init hp (Some sp) (Some dp) (Some xp) m = Inr w \<and>
      self w = \<lparr>currentPosition = None, currentSpeed = None, stepPin = sp, dirPin = dp,
                disablePin = xp, homingPin = hp, stepDivider = 1, MAX_RPM = 600,
                direction = 1, speed = None, position = None\<rparr> \<and>
      pin_events w = pin_events m @
        [Configure sp OUT None, Value sp 0, Configure dp OUT None, Value dp 0,
         Configure xp OUT None, Value xp 1] @
        (case hp of None \<Rightarrow> [] | Some h \<Rightarrow> [Configure h IN (Some PULL_UP)]) \<and>
      pwms w = pwms m \<and> console w = console m \<and>
      (distinct ([sp, dp, xp] @ (case hp of None \<Rightarrow> [] | Some h \<Rightarrow> [h])) \<longrightarrow>
         mode (pins w sp) = Some OUT \<and> level (pins w sp) = 0 \<and>
         mode (pins w dp) = Some OUT \<and> level (pins w dp) = 0 \<and>
         mode (pins w xp) = Some OUT \<and> level (pins w xp) = 1 \<and>
         (case hp of None \<Rightarrow> True
          | Some h \<Rightarrow> mode (pins w h) = Some IN \<and> pull (pins w h) = Some PULL_UP))) \<and>
   (\<exists>w. init_BL (Some sp) (Some dp) (Some xp) hp cp m = Inr w \<and>
      self w = \<lparr>currentPosition = None, currentSpeed = None, stepPin = sp, dirPin = dp,
                disablePin = xp, homingPin = hp, stepDivider = 1, MAX_RPM = 600,
                direction = 1, speed = None, position = None\<rparr> \<and>
      pin_events w = pin_events m @
        [Configure sp OUT None, Value sp 0, Configure dp OUT None, Value dp 1,
         Configure xp OUT None, Value xp 1] @
        (case hp of None \<Rightarrow> [] | Some h \<Rightarrow> [Configure h IN (Some PULL_UP)]) \<and>
      pwms w = pwms m \<and> console w = console m \<and>
      (distinct ([sp, dp, xp] @ (case hp of None \<Rightarrow> [] | Some h \<Rightarrow> [h])) \<longrightarrow>
         mode (pins w sp) = Some OUT \<and> level (pins w sp) = 0 \<and>
         mode (pins w dp) = Some OUT \<and> level (pins w dp) = 1 \<and>
         mode (pins w xp) = Some OUT \<and> level (pins w xp) = 1 \<and>
         (case hp of None \<Rightarrow> True
          | Some h \<Rightarrow> mode (pins w h) = Some IN \<and> pull (pins w h) = Some PULL_UP)))"
  by (cases hp) (auto simp: init_def init_BL_def Let_def board_defs)

theorem init_configures_pins_witness:
  "distinct ([17, 16, 7] @ [4 :: int]) \<and>
   init (Some 4) (Some 17) (Some 16) (Some 7) machine0 = Inr motor_SM \<and>
   level (pins motor_SM 17) = 0 \<and> level (pins motor_SM 16) = 0 \<and> level (pins motor_SM 7) = 1 \<and>
   mode (pins motor_SM 4) = Some IN \<and> pull (pins motor_SM 4) = Some PULL_UP \<and>
   init_BL (Some 17) (Some 16) (Some 7) (Some 4) None machine0 = Inr motor_BL \<and>
   level (pins motor_BL 17) = 0 \<and> level (pins motor_BL 16) = 1 \<and> level (pins motor_BL 7) = 1"
  using init_configures_pins [of "Some 4" 17 16 7 machine0 None]
  by (auto simp: motor_SM_def motor_BL_def)

text \<open>C6 as stated fails on the script of \<^verbatim>\<open>BlinkLed.py\<close>: its constructor leaves the
  direction pin, 16, at level 1.\<close>

theorem init_BL_dir_pin_counterexample:
  "init_BL (Some 17) (Some 16) (Some 7) (Some 4) None machine0 = Inr motor_BL \<and>
   dirPin (self motor_BL) = 16 \<and> level (pins motor_BL 16) = 1"
  by (simp add: example_defs board_defs)

section \<open>Homing\<close>

text \<open>
  C7, as the code has it. Without a homing pin, \<^verbatim>\<open>homeMotorReverse\<close> and \<^verbatim>\<open>homeMotorForward\<close>
  print that no homing pin is configured and return, as a successful call returns: nothing
  is raised and no error value reaches the caller. The position, every other attribute,
  the pins and the waveform generator are unchanged.
\<close>

theorem homing_without_pin:
  assumes "homingPin (self w) = None"
  shows "homeMotorReverse v w = Inr (print No_homing_pin_configured w) \<and>
         homeMotorReverse_BL v w = Inr (print No_homing_pin_configured w) \<and>
         homeMotorForward v w = Inr (print No_homing_pin_configured w)"
  using assms by (simp add: homeMotorReverse_def homeMotorReverse_BL_def homeMotorForward_def)

theorem homing_without_pin_witness:
  "homingPin (self nohome_SM) = None \<and>
   outcome (homeMotorReverse (- 60) nohome_SM) = Inr (self nohome_SM) \<and>
   outcome (homeMotorForward 60 nohome_SM) = Inr (self nohome_SM) \<and>
   position (self nohome_SM) = None"
  using homing_without_pin [of nohome_SM "- 60"] homing_without_pin [of nohome_SM 60]
  by (simp add: outcome_def print_def nohome_SM_self)

text \<open>C7 as stated fails on the controller without a homing pin: both calls return
  normally, with one more line on the console.\<close>

theorem homing_without_pin_counterexample:
  "homeMotorReverse (- 60) nohome_SM = Inr (print No_homing_pin_configured nohome_SM) \<and>
   homeMotorForward 60 nohome_SM = Inr (print No_homing_pin_configured nohome_SM)"
  by (simp add: homeMotorReverse_def homeMotorForward_def nohome_SM_self)

text \<open>
  C8. With a homing pin, \<^verbatim>\<open>homeMotorReverse\<close> calls \<^verbatim>\<open>setSpeed\<close> with its argument: when that
  call exits, so does the homing, with the same error and state; when it returns, the
  homing sets the position to 0 in the state it returned. \<^verbatim>\<open>homeMotorForward\<close> sets the
  position to 0 and changes no other attribute, no pin and no waveform generator, and
  writes nothing to a pin.
\<close>

theorem homing_with_pin:
  assumes "homingPin (self w) = Some hp"
  shows "(case setSpeed v (print (Homing_motor_using_pin hp) w) of
            Inl e \<Rightarrow> homeMotorReverse v w = Inl e
          | Inr w1 \<Rightarrow>
              homeMotorReverse v w =
                Inr (print Motor_homed_successfully (w1\<lparr>self := (self w1)\<lparr>position := Some 0\<rparr>\<rparr>))) \<and>
         (case setSpeed_BL v (print (Homing_motor_using_pin hp) w) of
            Inl e \<Rightarrow> homeMotorReverse_BL v w = Inl e
          | Inr w1 \<Rightarrow>
              homeMotorReverse_BL v w =
                Inr (print Motor_homed_successfully (w1\<lparr>self := (self w1)\<lparr>position := Some 0\<rparr>\<rparr>))) \<and>
         outcome (homeMotorForward v w) = Inr ((self w)\<lparr>position := Some 0\<rparr>) \<and>
         pins (state_of (homeMotorForward v w)) = pins w \<and>
         pin_events (state_of (homeMotorForward v w)) = pin_events w \<and>
         pwms (state_of (homeMotorForward v w)) = pwms w"
  using assms
  by (simp add: homeMotorReverse_def homeMotorReverse_BL_def homeMotorForward_def and_then_def
        outcome_def state_of_def print_def split: sum.splits)

theorem homing_with_pin_witness:
  "homingPin (self motor_SM) = Some 4 \<and>
   outcome (homeMotorReverse (- 60) motor_SM) =
     Inr ((self motor_SM)\<lparr>currentSpeed := Some (- 60), speed := Some (- 200), position := Some 0\<rparr>) \<and>
   homeMotorReverse 700 motor_SM = setSpeed 700 (print (Homing_motor_using_pin 4) motor_SM) \<and>
   outcome (homeMotorReverse 700 motor_SM) = Inl (SystemExit 1) \<and>
   position (self (state_of (homeMotorReverse 700 motor_SM))) = None \<and>
   outcome (homeMotorForward 60 motor_SM) = Inr ((self motor_SM)\<lparr>position := Some 0\<rparr>) \<and>
   pin_events (state_of (homeMotorForward 60 motor_SM)) = pin_events motor_SM \<and>
   pwms (state_of (homeMotorForward 60 motor_SM)) = pwms motor_SM"
proof -
  have h: "homingPin (self motor_SM) = Some 4"
    by (simp add: motor_SM_self)
  have a: "setSpeed (- 60) (print (Homing_motor_using_pin 4) motor_SM) =
             Inr (state_of (setSpeed (- 60) (print (Homing_motor_using_pin 4) motor_SM)))"
    by (simp add: setSpeed_def Let_def state_of_def motor_SM_self print_def)
  have a': "self (state_of (setSpeed (- 60) (print (Homing_motor_using_pin 4) motor_SM))) =
              (self motor_SM)\<lparr>currentSpeed := Some (- 60), speed := Some (- 200)\<rparr>"
    by (simp add: setSpeed_def Let_def state_of_def example_defs board_defs)
  have b: "isl (setSpeed 700 (print (Homing_motor_using_pin 4) motor_SM))"
    by (simp add: setSpeed_def Let_def motor_SM_self print_def)
  have b': "outcome (setSpeed 700 (print (Homing_motor_using_pin 4) motor_SM)) = Inl (SystemExit 1) \<and>
            position (self (state_of (setSpeed 700 (print (Homing_motor_using_pin 4) motor_SM)))) = None"
    by (simp add: setSpeed_def Let_def outcome_def state_of_def motor_SM_self print_def)
  have r: "outcome (homeMotorReverse (- 60) motor_SM) =
             Inr ((self motor_SM)\<lparr>currentSpeed := Some (- 60), speed := Some (- 200), position := Some 0\<rparr>)"
    using homing_with_pin [OF h, of "- 60"] a a'
    by (simp add: outcome_def print_def split: sum.splits)
  have x: "homeMotorReverse 700 motor_SM = setSpeed 700 (print (Homing_motor_using_pin 4) motor_SM)"
    using homing_with_pin [OF h, of 700] b
    by (auto split: sum.splits)
  have x': "outcome (homeMotorReverse 700 motor_SM) = Inl (SystemExit 1) \<and>
            position (self (state_of (homeMotorReverse 700 motor_SM))) = None"
    unfolding x by (rule b')
  show ?thesis
    using homing_with_pin [OF h, of 60] h r x x' by simp
qed

section \<open>Direction\<close>

text \<open>
  C9. \<^verbatim>\<open>reverseDirections\<close> negates the attribute \<open>direction\<close> and changes no other attribute,
  no pin, no pin write and no waveform generator (it prints one line). Two calls give
  back the attributes they started from, so a move of \<open>n\<close> steps made after them ends as
  the same move made without them: with the same error, or with the same attributes, the
  position being \<open>p + n * direction\<close> for \<^verbatim>\<open>step\<close> when it was \<open>p\<close>.
\<close>

theorem reverseDirections_flip:
  "self (reverseDirections w) = (self w)\<lparr>direction := - direction (self w)\<rparr> \<and>
   pins (reverseDirections w) = pins w \<and>
   pin_events (reverseDirections w) = pin_events w \<and>
   pwms (reverseDirections w) = pwms w \<and>
   self (reverseDirections (reverseDirections w)) = self w \<and>
   outcome (moveSteps n (reverseDirections (reverseDirections w))) = outcome (moveSteps n w) \<and>
   outcome (step n (reverseDirections (reverseDirections w))) = outcome (step n w) \<and>
   (position (self w) = Some p \<longrightarrow>
      outcome (step n (reverseDirections (reverseDirections w))) =
        Inr ((self w)\<lparr>position := Some (p + n * direction (self w))\<rparr>))"
proof -
  have s: "self (reverseDirections (reverseDirections w)) = self w"
    by (simp add: reverseDirections_def print_def)
  have m: "outcome (moveSteps n (reverseDirections (reverseDirections w))) = outcome (moveSteps n w)"
    unfolding moveSteps_outcome s by (rule refl)
  have t: "outcome (step n (reverseDirections (reverseDirections w))) = outcome (step n w)"
    unfolding step_outcome s by (rule refl)
  have d: "position (self w) = Some p \<longrightarrow>
             outcome (step n (reverseDirections (reverseDirections w))) =
               Inr ((self w)\<lparr>position := Some (p + n * direction (self w))\<rparr>)"
    unfolding t by (simp add: step_outcome)
  have r: "self (reverseDirections w) = (self w)\<lparr>direction := - direction (self w)\<rparr> \<and>
           pins (reverseDirections w) = pins w \<and>
           pin_events (reverseDirections w) = pin_events w \<and>
           pwms (reverseDirections w) = pwms w"
    by (simp add: reverseDirections_def print_def)
  from r s m t d show ?thesis
    by blast
qed

theorem reverseDirections_flip_witness:
  "position (self homed_BL) = Some 0 \<and>
   direction (self homed_BL) = 1 \<and>
   direction (self (reverseDirections homed_BL)) = - 1 \<and>
   direction (self (reverseDirections (reverseDirections homed_BL))) = 1 \<and>
   outcome (step 5 (reverseDirections (reverseDirections homed_BL))) =
     Inr ((self homed_BL)\<lparr>position := Some 5\<rparr>) \<and>
   outcome (step 5 homed_BL) = Inr ((self homed_BL)\<lparr>position := Some 5\<rparr>)"
proof -
  have p: "position (self homed_BL) = Some 0" and d: "direction (self homed_BL) = 1"
    by (simp_all add: homed_BL_self motor_BL_self)
  have o: "outcome (step 5 homed_BL) = Inr ((self homed_BL)\<lparr>position := Some 5\<rparr>)"
    by (simp add: step_outcome p d)
  show ?thesis
    using reverseDirections_flip [of homed_BL 5 0] p d o by simp
qed

section \<open>Enabling and disabling\<close>

text \<open>
  C10, as the code has it. \<^verbatim>\<open>enableMotor\<close> drives the disable pin to 0 and \<^verbatim>\<open>disableMotor\<close>
  drives it to 1 (configuring it as an output again, except for \<^verbatim>\<open>enableMotor\<close> of
  \<^verbatim>\<open>BlinkLed.py\<close>, which only writes). Neither assigns any attribute: the object has no
  flag for being enabled, the level of the pin is all there is. No other pin and no
  waveform generator changes, and a second call leaves every pin as the first left it.
\<close>

theorem enable_disable_pin:
  "pins (enableMotor w) =
     (pins w)(disablePin (self w) := (pins w (disablePin (self w)))\<lparr>mode := Some OUT, level := 0\<rparr>) \<and>
   pins (enableMotor_BL w) =
     (pins w)(disablePin (self w) := (pins w (disablePin (self w)))\<lparr>level := 0\<rparr>) \<and>
   pins (disableMotor w) =
     (pins w)(disablePin (self w) := (pins w (disablePin (self w)))\<lparr>mode := Some OUT, level := 1\<rparr>) \<and>
   self (enableMotor w) = self w \<and> self (enableMotor_BL w) = self w \<and> self (disableMotor w) = self w \<and>
   pwms (enableMotor w) = pwms w \<and> pwms (enableMotor_BL w) = pwms w \<and> pwms (disableMotor w) = pwms w \<and>
   pins (enableMotor (enableMotor w)) = pins (enableMotor w) \<and>
   pins (enableMotor_BL (enableMotor_BL w)) = pins (enableMotor_BL w) \<and>
   pins (disableMotor (disableMotor w)) = pins (disableMotor w)"
  by (simp add: enableMotor_def enableMotor_BL_def disableMotor_def board_defs)

text \<open>C10 as stated fails on the controllers of the script: the attributes after
  \<^verbatim>\<open>enableMotor\<close> are those after \<^verbatim>\<open>disableMotor\<close>, and those before either, so no flag is
  set by the one and cleared by the other.\<close>

theorem enabled_flag_counterexample:
  "self (enableMotor motor_SM) = self (disableMotor motor_SM) \<and>
   self (enableMotor motor_SM) = self motor_SM \<and>
   self (enableMotor_BL motor_BL) = self (disableMotor motor_BL)"
  by (simp add: enableMotor_def enableMotor_BL_def disableMotor_def board_defs)

end
